theory Spec2Isabelle
  imports Complex_Main
begin

section \<open>Values, features and tiles of the MVT layer\<close>

text \<open>
  The layer (\<^verbatim>\<open>modules/geo-layers/src/mvt-layer/mvt-layer.js\<close>) handles JavaScript values.
  A feature identity is an arbitrary value; the kinds that occur are listed in \<open>jsval\<close>. An
  object is represented by its reference, so that equality of \<open>jsval\<close> is the comparison
  which a JavaScript \<^verbatim>\<open>Set\<close> uses for membership (SameValueZero), and on the number
  \<open>-1\<close> also the strict equality \<^verbatim>\<open>featureId === -1\<close>. Numbers are idealised as
  exact reals: rounding, infinities and NaN are outside the model.
\<close>

datatype jsval =
    JUndefined
  | JNull
  | JBool bool
  | JNum real
  | JStr string
  | JObj nat

text \<open>
  What the code throws. \<open>IllegalVector\<close> and \<open>InvalidNumber\<close> are raised by the
  linear-algebra library (math.gl) which the layer calls.
\<close>

datatype error =
    TypeError
  | FetchTileJSONError
  | IllegalVector
  | InvalidNumber

text \<open>
  Nested coordinates of a geometry: a number, or an array of coordinates. A point is
  \<open>Arr [Num x, Num y]\<close>, a line an array of points, a polygon an array of rings.
\<close>

datatype coords = Num real | Arr "coords list"

text \<open>
  A feature as the code reads it: \<open>feature_id\<close> is the top-level \<^verbatim>\<open>id\<close> (\<open>None\<close> when
  \<^verbatim>\<open>'id' in feature\<close> is false), \<open>properties\<close> the property bag (\<open>None\<close> when the feature
  has no \<^verbatim>\<open>properties\<close> object, so that a member access on it throws), and
  \<open>geometry_coordinates\<close> the value of \<^verbatim>\<open>f.geometry.coordinates\<close> (\<open>None\<close> when the
  geometry or its coordinates are missing). A tile carries its indices and its
  \<^verbatim>\<open>data\<close> slot, \<open>None\<close> while the slot holds no array. A hit-test result wraps one
  feature as its \<^verbatim>\<open>object\<close>.
\<close>

record feature =
  feature_id :: "jsval option"
  properties :: "(string \<times> jsval) list option"
  geometry_coordinates :: "coords option"

record tile =
  tile_x :: int
  tile_y :: int
  tile_z :: int
  tile_data :: "feature list option"

record picking_info =
  object :: feature

text \<open>
The literal \<^verbatim>\<open>-1\<close> which stands for "no identity".
\<close>

abbreviation sentinel :: jsval where
  "sentinel \<equiv> JNum (- 1)"

section \<open>Feature identity\<close>

text \<open>
  \<^verbatim>\<open>
  function getFeatureUniqueId(feature, uniqueIdProperty) {
    if (uniqueIdProperty) {
      return feature.properties[uniqueIdProperty];
    }
    if ('id' in feature) {
      return feature.id;
    }
    return -1;
  }
  \<close>
  \<open>uniqueIdProperty\<close> is a string prop (default \<^verbatim>\<open>''\<close>), truthy when it is not empty.
  Reading a member of a missing \<^verbatim>\<open>properties\<close> throws a TypeError; reading a missing
  key of an object gives \<^verbatim>\<open>undefined\<close>. The property bag is the list of its own
  entries; members inherited from a prototype are outside the model.
\<close>

definition getFeatureUniqueId :: "feature \<Rightarrow> string \<Rightarrow> error + jsval" where
  "getFeatureUniqueId f uniqueIdProperty =
     (if uniqueIdProperty \<noteq> [] then
        (case properties f of
           None \<Rightarrow> Inl TypeError
         | Some ps \<Rightarrow>
             (case map_of ps uniqueIdProperty of
                None \<Rightarrow> Inr JUndefined
              | Some v \<Rightarrow> Inr v))
      else
        (case feature_id f of
           Some v \<Rightarrow> Inr v
         | None \<Rightarrow> Inr sentinel))"

section \<open>Tile placement\<close>

text \<open>
  \<^verbatim>\<open>
  const WORLD_SIZE = 512;

  function getModelMatrixScale(tile) {
    const worldScale = Math.pow(2, tile.z);
    const xScale = WORLD_SIZE / worldScale;
    const yScale = -xScale;
    return [xScale, yScale, 1];
  }

  function getCoordinateOrigin(tile) {
    const worldScale = Math.pow(2, tile.z);
    const xOffset = (WORLD_SIZE * tile.x) / worldScale;
    const yOffset = WORLD_SIZE * (1 - tile.y / worldScale);
    return [xOffset, yOffset, 0];
  }
  \<close>
  The three-element arrays are triples. \<^verbatim>\<open>Math.pow(2, tile.z)\<close> on an integer
  \<open>z\<close> is \<open>power_int 2 z\<close>, also for a negative \<open>z\<close>.
\<close>

definition WORLD_SIZE :: real where
  "WORLD_SIZE = 512"

definition getModelMatrixScale :: "tile \<Rightarrow> real \<times> real \<times> real" where
  "getModelMatrixScale t =
     (let worldScale = power_int 2 (tile_z t);
          xScale = WORLD_SIZE / worldScale;
          yScale = - xScale
      in (xScale, yScale, 1))"

definition getCoordinateOrigin :: "tile \<Rightarrow> real \<times> real \<times> real" where
  "getCoordinateOrigin t =
     (let worldScale = power_int 2 (tile_z t);
          xOffset = (WORLD_SIZE * real_of_int (tile_x t)) / worldScale;
          yOffset = WORLD_SIZE * (1 - real_of_int (tile_y t) / worldScale)
      in (xOffset, yOffset, 0))"

section \<open>Frustum containment\<close>

text \<open>
  The frustum planes are an object from plane names to a normal (a three-component
  vector) and a distance; \<^verbatim>\<open>Object.keys\<close> lists its entries in order. The placement
  matrix is an object of math.gl, used only through \<^verbatim>\<open>matrix.transform(c)\<close>: it is
  represented by that method, a function from the value passed to the transformed
  vector or to the error it throws.
\<close>

record plane =
  normal :: "real \<times> real \<times> real"
  distance :: real

type_synonym frustum_planes = "(string \<times> plane) list"

type_synonym matrix4 = "coords \<Rightarrow> error + real list"

text \<open>
  \<^verbatim>\<open>normal.dot(coords)\<close> multiplies the three components of the normal with the first
  three components of its argument. A missing component makes the product NaN, which the
  library's number check rejects with an error.
\<close>

fun dot :: "real \<times> real \<times> real \<Rightarrow> real list \<Rightarrow> error + real" where
  "dot (a, b, c) (x # y # z # rest) = Inr (a * x + b * y + c * z)"
| "dot (a, b, c) v = Inl InvalidNumber"

text \<open>
  \<^verbatim>\<open>
  function coordIsInPlanes(frustumPlanes, coords) {
    return Object.keys(frustumPlanes).every(plane => {
      const {normal, distance} = frustumPlanes[plane];
      return normal.dot(coords) < distance;
    });
  }
  \<close>
  \<^verbatim>\<open>every\<close> stops at the first plane whose test is false.
\<close>

fun coordIsInPlanes :: "frustum_planes \<Rightarrow> real list \<Rightarrow> error + bool" where
  "coordIsInPlanes [] coords = Inr True"
| "coordIsInPlanes ((name, pl) # frustumPlanes) coords =
     (case dot (normal pl) coords of
        Inl e \<Rightarrow> Inl e
      | Inr d \<Rightarrow> if d < distance pl then coordIsInPlanes frustumPlanes coords else Inr False)"

text \<open>
  The two shape tests of the traversal:
  \<^verbatim>\<open>Array.isArray(coords) && coords.length && typeof coords[0] === 'number'\<close> and
  \<^verbatim>\<open>Array.isArray(c) && Array.isArray(c[0])\<close>.
\<close>

fun isPosition :: "coords \<Rightarrow> bool" where
  "isPosition (Arr (Num x # cs)) = True"
| "isPosition c = False"

fun isNested :: "coords \<Rightarrow> bool" where
  "isNested (Arr (Arr a # cs)) = True"
| "isNested c = False"

text \<open>
  The expression \<^verbatim>\<open>coordIsInPlanes(frustumPlanes, matrix.transform(c).concat(0))\<close>, which
  occurs twice in the traversal.
\<close>

definition transformedIsInPlanes :: "matrix4 \<Rightarrow> frustum_planes \<Rightarrow> coords \<Rightarrow> error + bool" where
  "transformedIsInPlanes matrix frustumPlanes c =
     (case matrix c of
        Inl e \<Rightarrow> Inl e
      | Inr v \<Rightarrow> coordIsInPlanes frustumPlanes (v @ [0]))"

text \<open>
  \<^verbatim>\<open>
  function checkIfCoordsAreInsideFrustum(matrix, frustumPlanes, coords) {
    if (Array.isArray(coords) && coords.length && typeof coords[0] === 'number') {
      return coordIsInPlanes(frustumPlanes, matrix.transform(coords).concat(0));
    }
    return coords.some(c => {
      if (Array.isArray(c) && Array.isArray(c[0])) {
        return checkIfCoordsAreInsideFrustum(matrix, frustumPlanes, c);
      }
      return coordIsInPlanes(frustumPlanes, matrix.transform(c).concat(0));
    });
  }
  \<close>
  \<open>some_inside\<close> is the call of \<^verbatim>\<open>coords.some\<close>: it stops at the first child whose
  test is true, and an error thrown on the way ends the whole call. A number has no
  \<^verbatim>\<open>some\<close> method, so that the call on a bare number throws a TypeError.
\<close>

fun checkIfCoordsAreInsideFrustum :: "matrix4 \<Rightarrow> frustum_planes \<Rightarrow> coords \<Rightarrow> error + bool"
  and some_inside :: "matrix4 \<Rightarrow> frustum_planes \<Rightarrow> coords list \<Rightarrow> error + bool" where
  "checkIfCoordsAreInsideFrustum matrix frustumPlanes (Num x) = Inl TypeError"
| "checkIfCoordsAreInsideFrustum matrix frustumPlanes (Arr cs) =
     (if isPosition (Arr cs) then transformedIsInPlanes matrix frustumPlanes (Arr cs)
      else some_inside matrix frustumPlanes cs)"
| "some_inside matrix frustumPlanes [] = Inr False"
| "some_inside matrix frustumPlanes (c # cs) =
     (case (if isNested c then checkIfCoordsAreInsideFrustum matrix frustumPlanes c
            else transformedIsInPlanes matrix frustumPlanes c) of
        Inl e \<Rightarrow> Inl e
      | Inr found \<Rightarrow> if found then Inr True else some_inside matrix frustumPlanes cs)"

text \<open>
  An instance of the matrix parameter, for the examples: the transform of the matrix
  \<^verbatim>\<open>new Matrix4().translate(origin).scale(scale)\<close> on arrays of two, three or four numbers.
  math.gl rejects an array of another length as an illegal vector.
\<close>

fun translateScale :: "real \<times> real \<times> real \<Rightarrow> real \<times> real \<times> real \<Rightarrow> matrix4" where
  "translateScale (ox, oy, oz) (sx, sy, sz) (Arr [Num px, Num py]) =
     Inr [sx * px + ox, sy * py + oy]"
| "translateScale (ox, oy, oz) (sx, sy, sz) (Arr [Num px, Num py, Num pz]) =
     Inr [sx * px + ox, sy * py + oy, sz * pz + oz]"
| "translateScale (ox, oy, oz) (sx, sy, sz) (Arr [Num px, Num py, Num pz, Num pw]) =
     Inr [sx * px + ox * pw, sy * py + oy * pw, sz * pz + oz * pw, pw]"
| "translateScale origin scale c = Inl IllegalVector"

section \<open>Rendered and viewport features\<close>

text \<open>
  \<^verbatim>\<open>
  getRenderedFeatures(maxFeatures = null) {
    const features = this._pickObjects(maxFeatures);
    const featureCache = new Set();
    const renderedFeatures = [];

    for (const f of features) {
      const featureId = getFeatureUniqueId(f.object, this.props.uniqueIdProperty);

      if (featureId === -1) {
        // we have no id for the feature, we just add to the list
        renderedFeatures.push(f.object);
      } else if (!featureCache.has(featureId)) {
        // Add removing duplicates
        featureCache.add(featureId);
        renderedFeatures.push(f.object);
      }
    }

    return renderedFeatures;
  }
  \<close>
  The loop passes the pair of \<open>featureCache\<close> and \<open>renderedFeatures\<close> along. The picking
  engine behind \<^verbatim>\<open>_pickObjects\<close> is a parameter.
\<close>

fun renderedFeaturesLoop ::
  "string \<Rightarrow> picking_info list \<Rightarrow> jsval set \<times> feature list \<Rightarrow> error + feature list" where
  "renderedFeaturesLoop uniqueIdProperty [] (featureCache, renderedFeatures) = Inr renderedFeatures"
| "renderedFeaturesLoop uniqueIdProperty (f # features) (featureCache, renderedFeatures) =
     (case getFeatureUniqueId (object f) uniqueIdProperty of
        Inl e \<Rightarrow> Inl e
      | Inr featureId \<Rightarrow>
          if featureId = sentinel then
            renderedFeaturesLoop uniqueIdProperty features
              (featureCache, renderedFeatures @ [object f])
          else if featureId \<notin> featureCache then
            renderedFeaturesLoop uniqueIdProperty features
              (insert featureId featureCache, renderedFeatures @ [object f])
          else
            renderedFeaturesLoop uniqueIdProperty features (featureCache, renderedFeatures))"

definition getRenderedFeatures ::
  "(nat option \<Rightarrow> picking_info list) \<Rightarrow> string \<Rightarrow> nat option \<Rightarrow> error + feature list" where
  "getRenderedFeatures pickObjects uniqueIdProperty maxFeatures =
     renderedFeaturesLoop uniqueIdProperty (pickObjects maxFeatures) ({}, [])"

text \<open>
  \<^verbatim>\<open>
  getViewportFeatures() {
    const {tileset} = this.state;
    const {uniqueIdProperty} = this.props;
    const currentFrustumPlanes = this.context.viewport.getFrustumPlanes();
    const featureCache = new Set();
    let viewportFeatures = [];

    tileset.selectedTiles.forEach(tile => {
      const data = tile.data;

      if (!Array.isArray(data)) {
        return;
      }

      const transformationMatrix = new Matrix4()
        .translate(getCoordinateOrigin(tile))
        .scale(getModelMatrixScale(tile));

      viewportFeatures = viewportFeatures.concat(
        data.filter(f => {
          const featureId = getFeatureUniqueId(f, uniqueIdProperty);
          if (
            !featureCache.has(featureId) &&
            checkIfCoordsAreInsideFrustum(
              transformationMatrix,
              currentFrustumPlanes,
              f.geometry.coordinates
            )
          ) {
            featureCache.add(featureId);
            return true;
          }
          return false;
        })
      );
    });

    return viewportFeatures;
  }
  \<close>
  \<open>filterTileData\<close> is the call of \<^verbatim>\<open>data.filter\<close> on one tile; it returns the features
  kept and the cache as the callback left it. \<open>selectedTilesLoop\<close> is the
  \<^verbatim>\<open>forEach\<close> over the selected tiles. The construction of the matrix from the origin and the
  scale is a parameter, \<open>translateThenScale\<close>, as are the frustum planes of the
  viewport.
\<close>

fun filterTileData ::
  "matrix4 \<Rightarrow> frustum_planes \<Rightarrow> string \<Rightarrow> feature list \<Rightarrow> jsval set
     \<Rightarrow> error + feature list \<times> jsval set" where
  "filterTileData transformationMatrix currentFrustumPlanes uniqueIdProperty [] featureCache =
     Inr ([], featureCache)"
| "filterTileData transformationMatrix currentFrustumPlanes uniqueIdProperty (f # fs) featureCache =
     (case getFeatureUniqueId f uniqueIdProperty of
        Inl e \<Rightarrow> Inl e
      | Inr featureId \<Rightarrow>
          (case (if featureId \<notin> featureCache then
                   (case geometry_coordinates f of
                      None \<Rightarrow> Inl TypeError
                    | Some coords \<Rightarrow>
                        checkIfCoordsAreInsideFrustum transformationMatrix
                          currentFrustumPlanes coords)
                 else Inr False) of
             Inl e \<Rightarrow> Inl e
           | Inr keep \<Rightarrow>
               if keep then
                 (case filterTileData transformationMatrix currentFrustumPlanes
                         uniqueIdProperty fs (insert featureId featureCache) of
                    Inl e \<Rightarrow> Inl e
                  | Inr (kept, cache) \<Rightarrow> Inr (f # kept, cache))
               else
                 filterTileData transformationMatrix currentFrustumPlanes
                   uniqueIdProperty fs featureCache))"

fun selectedTilesLoop ::
  "(real \<times> real \<times> real \<Rightarrow> real \<times> real \<times> real \<Rightarrow> matrix4) \<Rightarrow> frustum_planes \<Rightarrow> string
     \<Rightarrow> tile list \<Rightarrow> jsval set \<times> feature list \<Rightarrow> error + feature list" where
  "selectedTilesLoop translateThenScale currentFrustumPlanes uniqueIdProperty []
     (featureCache, viewportFeatures) = Inr viewportFeatures"
| "selectedTilesLoop translateThenScale currentFrustumPlanes uniqueIdProperty (t # ts)
     (featureCache, viewportFeatures) =
     (case tile_data t of
        None \<Rightarrow>
          selectedTilesLoop translateThenScale currentFrustumPlanes uniqueIdProperty ts
            (featureCache, viewportFeatures)
      | Some data \<Rightarrow>
          (case filterTileData
                  (translateThenScale (getCoordinateOrigin t) (getModelMatrixScale t))
                  currentFrustumPlanes uniqueIdProperty data featureCache of
             Inl e \<Rightarrow> Inl e
           | Inr (kept, cache) \<Rightarrow>
               selectedTilesLoop translateThenScale currentFrustumPlanes uniqueIdProperty ts
                 (cache, viewportFeatures @ kept)))"

definition getViewportFeatures ::
  "(real \<times> real \<times> real \<Rightarrow> real \<times> real \<times> real \<Rightarrow> matrix4) \<Rightarrow> frustum_planes \<Rightarrow> string
     \<Rightarrow> tile list \<Rightarrow> error + feature list" where
  "getViewportFeatures translateThenScale currentFrustumPlanes uniqueIdProperty selectedTiles =
     selectedTilesLoop translateThenScale currentFrustumPlanes uniqueIdProperty selectedTiles
       ({}, [])"

section \<open>Tile data\<close>

text \<open>
  A TileJSON document as far as the layer reads it: the \<^verbatim>\<open>tilejson\<close> version, the
  \<^verbatim>\<open>tiles\<close> templates and the zoom bounds, a bound being \<open>None\<close> when
  \<^verbatim>\<open>Number.isFinite\<close> is false on it. The \<^verbatim>\<open>data\<close> prop is a string, a list of
  templates or such a document. The zoom props are numbers or \<^verbatim>\<open>null\<close> (\<open>None\<close>).
\<close>

record tilejson_doc =
  tilejson :: "string option"
  tiles :: "string list option"
  minzoom :: "real option"
  maxzoom :: "real option"

datatype tile_source =
    SourceString string
  | SourceTemplates "string list"
  | SourceTileJSON tilejson_doc

record layer_props =
  props_data :: "tile_source option"
  props_minZoom :: "real option"
  props_maxZoom :: "real option"

record layer_state =
  state_data :: "tile_source option"
  state_tileJSON :: "tilejson_doc option"
  state_minZoom :: "real option"
  state_maxZoom :: "real option"

text \<open>
  \<^verbatim>\<open>
  async function fetchTileJSON(url) {
    try {
      return await load(url);
    } catch (error) {
      throw new Error(`An error occurred fetching TileJSON: ${error}`);
    }
  }
  \<close>
  The loader is a parameter; what it delivers may be falsy (\<open>None\<close>).
\<close>

definition fetchTileJSON ::
  "(string \<Rightarrow> error + tilejson_doc option) \<Rightarrow> string \<Rightarrow> error + tilejson_doc option" where
  "fetchTileJSON load url =
     (case load url of
        Inl e \<Rightarrow> Inl FetchTileJSONError
      | Inr doc \<Rightarrow> Inr doc)"

text \<open>
  \<^verbatim>\<open>tileJSON.minzoom > minZoom\<close> with a finite number on the left: \<^verbatim>\<open>null\<close> on the right
  converts to \<open>0\<close>.
\<close>

definition greater_than :: "real \<Rightarrow> real option \<Rightarrow> bool" where
  "greater_than d bound = (case bound of None \<Rightarrow> d > 0 | Some c \<Rightarrow> d > c)"

text \<open>
  \<^verbatim>\<open>
  async _updateTileData({props}) {
    const {onDataLoad} = this.props;
    let {data} = props;
    let tileJSON = null;
    let {minZoom, maxZoom} = props;

    if (typeof data === 'string' && !isURLTemplate(data)) {
      this.setState({data: null, tileJSON: null});
      tileJSON = await fetchTileJSON(data);

      if (onDataLoad) {
        onDataLoad(tileJSON);
      }
    } else if (data.tilejson) {
      tileJSON = data;
    }

    if (tileJSON) {
      data = tileJSON.tiles;

      if (Number.isFinite(tileJSON.minzoom) && tileJSON.minzoom > minZoom) {
        minZoom = tileJSON.minzoom;
      }

      if (
        Number.isFinite(tileJSON.maxzoom) &&
        (!Number.isFinite(maxZoom) || tileJSON.maxzoom < maxZoom)
      ) {
        maxZoom = tileJSON.maxzoom;
      }
    }

    this.setState({data, tileJSON, minZoom, maxZoom});
  }
  \<close>
  The state is passed in and returned, with the error thrown, if any. The test
  \<^verbatim>\<open>isURLTemplate\<close> of the tile-layer utilities is a parameter. The callback
  \<^verbatim>\<open>onDataLoad\<close> does not touch the state and is left out.
\<close>

definition updateTileData ::
  "(string \<Rightarrow> bool) \<Rightarrow> (string \<Rightarrow> error + tilejson_doc option) \<Rightarrow> layer_props
     \<Rightarrow> layer_state \<Rightarrow> error option \<times> layer_state" where
  "updateTileData isURLTemplate load props st =
     (case props_data props of
        None \<Rightarrow> (Some TypeError, st)
      | Some data \<Rightarrow>
          (let fetching = (case data of SourceString url \<Rightarrow> \<not> isURLTemplate url | _ \<Rightarrow> False);
               st1 = (if fetching then st\<lparr>state_data := None, state_tileJSON := None\<rparr> else st);
               fetched =
                 (case data of
                    SourceString url \<Rightarrow>
                      if \<not> isURLTemplate url then fetchTileJSON load url else Inr None
                  | SourceTemplates templates \<Rightarrow> Inr None
                  | SourceTileJSON doc \<Rightarrow>
                      (case tilejson doc of
                         None \<Rightarrow> Inr None
                       | Some version \<Rightarrow> if version \<noteq> [] then Inr (Some doc) else Inr None))
           in case fetched of
                Inl e \<Rightarrow> (Some e, st1)
              | Inr None \<Rightarrow>
                  (None, st1\<lparr>state_data := Some data, state_tileJSON := None,
                             state_minZoom := props_minZoom props,
                             state_maxZoom := props_maxZoom props\<rparr>)
              | Inr (Some tileJSON) \<Rightarrow>
                  (let minZoom =
                         (case minzoom tileJSON of
                            None \<Rightarrow> props_minZoom props
                          | Some d \<Rightarrow>
                              if greater_than d (props_minZoom props) then Some d
                              else props_minZoom props);
                       maxZoom =
                         (case maxzoom tileJSON of
                            None \<Rightarrow> props_maxZoom props
                          | Some d \<Rightarrow>
                              (case props_maxZoom props of
                                 None \<Rightarrow> Some d
                               | Some c \<Rightarrow> if d < c then Some d else Some c))
                   in (None, st1\<lparr>state_data := map_option SourceTemplates (tiles tileJSON),
                                  state_tileJSON := Some tileJSON,
                                  state_minZoom := minZoom,
                                  state_maxZoom := maxZoom\<rparr>))))"

section \<open>Notions of the specification\<close>

text \<open>
  The leaf positions of a coordinate structure: the structure itself when it is an array
  whose first element is a number, and the leaf positions of its children otherwise.
\<close>

fun leaf_positions :: "coords \<Rightarrow> coords list" where
  "leaf_positions (Num x) = []"
| "leaf_positions (Arr cs) =
     (if isPosition (Arr cs) then [Arr cs] else concat (map leaf_positions cs))"

text \<open>
  A point is inside the frustum when its product with the normal is strictly below the
  distance, for every plane. A leaf position is contained when its transformed point,
  with the component \<open>0\<close> appended, is inside.
\<close>

definition inside_every_plane :: "frustum_planes \<Rightarrow> real list \<Rightarrow> bool" where
  "inside_every_plane frustumPlanes point =
     list_all (\<lambda>(name, pl). case dot (normal pl) point of
                                Inl e \<Rightarrow> False
                              | Inr d \<Rightarrow> d < distance pl) frustumPlanes"

definition position_contained :: "matrix4 \<Rightarrow> frustum_planes \<Rightarrow> coords \<Rightarrow> bool" where
  "position_contained matrix frustumPlanes p =
     (case matrix p of
        Inl e \<Rightarrow> False
      | Inr v \<Rightarrow> inside_every_plane frustumPlanes (v @ [0]))"

text \<open>
  Well-formed coordinates: every array below the top is a position or an array of arrays,
  and the matrix transforms every position into a vector of at least two components, as
  math.gl does for positions of two to four numbers. The empty array is well-formed at
  the top.
\<close>

definition transformable :: "matrix4 \<Rightarrow> coords \<Rightarrow> bool" where
  "transformable matrix p = (case matrix p of Inl e \<Rightarrow> False | Inr v \<Rightarrow> 2 \<le> length v)"

fun well_formed :: "matrix4 \<Rightarrow> coords \<Rightarrow> bool" where
  "well_formed matrix (Num x) = False"
| "well_formed matrix (Arr cs) =
     (if isPosition (Arr cs) then transformable matrix (Arr cs)
      else list_all (\<lambda>c. (isPosition c \<or> isNested c) \<and> well_formed matrix c) cs)"

text \<open>
  Tightening of a plane set: the same planes with the same normals, no distance larger.
\<close>

definition tightened :: "frustum_planes \<Rightarrow> frustum_planes \<Rightarrow> bool" where
  "tightened tight frustumPlanes =
     list_all2 (\<lambda>(name', pl') (name, pl).
        name' = name \<and> normal pl' = normal pl \<and> distance pl' \<le> distance pl) tight frustumPlanes"

text \<open>
  The identities of a list of features, whether a feature's identity resolves without an
  error, and the features which the collector of rendered features is to keep: those whose
  identity is the sentinel, and those whose identity no earlier feature of the list has.
\<close>

definition identities :: "string \<Rightarrow> feature list \<Rightarrow> (error + jsval) list" where
  "identities uniqueIdProperty fs = map (\<lambda>f. getFeatureUniqueId f uniqueIdProperty) fs"

definition resolves :: "string \<Rightarrow> feature \<Rightarrow> bool" where
  "resolves uniqueIdProperty f =
     (case getFeatureUniqueId f uniqueIdProperty of Inl e \<Rightarrow> False | Inr v \<Rightarrow> True)"

definition first_occurrences :: "string \<Rightarrow> feature list \<Rightarrow> feature list" where
  "first_occurrences uniqueIdProperty fs =
     map snd (filter (\<lambda>(i, f).
        getFeatureUniqueId f uniqueIdProperty = Inr sentinel
        \<or> getFeatureUniqueId f uniqueIdProperty \<notin> set (identities uniqueIdProperty (take i fs)))
       (enumerate 0 fs))"

text \<open>
  No two elements of a result share an identity other than the sentinel.
\<close>

definition no_shared_identity :: "string \<Rightarrow> feature list \<Rightarrow> bool" where
  "no_shared_identity uniqueIdProperty res =
     (\<forall>i < length res. \<forall>j < length res.
        i \<noteq> j \<and> getFeatureUniqueId (res ! i) uniqueIdProperty
                  = getFeatureUniqueId (res ! j) uniqueIdProperty
        \<longrightarrow> getFeatureUniqueId (res ! i) uniqueIdProperty = Inr sentinel)"

section \<open>Identity resolution\<close>

text \<open>
  C3. With a non-empty configured property name the identity is the entry of the
  property bag under that name, \<^verbatim>\<open>undefined\<close> when the bag has no such entry; with an
  empty name it is the top-level id when the feature has one, and the sentinel \<open>-1\<close>
  otherwise. The resolver is a function of the feature and the configuration: equal
  inputs give equal identities.
\<close>

theorem getFeatureUniqueId_cases:
  "(p \<noteq> [] \<and> properties f = Some ps \<and> map_of ps p = Some v
      \<longrightarrow> getFeatureUniqueId f p = Inr v)
   \<and> (p \<noteq> [] \<and> properties f = Some ps \<and> map_of ps p = None
      \<longrightarrow> getFeatureUniqueId f p = Inr JUndefined)
   \<and> (p = [] \<and> feature_id f = Some v \<longrightarrow> getFeatureUniqueId f p = Inr v)
   \<and> (p = [] \<and> feature_id f = None \<longrightarrow> getFeatureUniqueId f p = Inr sentinel)
   \<and> (f = f' \<and> p = p' \<longrightarrow> getFeatureUniqueId f p = getFeatureUniqueId f' p')"
  by (simp add: getFeatureUniqueId_def)

theorem getFeatureUniqueId_cases_witness:
  "getFeatureUniqueId
      \<lparr>feature_id = None, properties = Some [(''id'', JStr ''a'')],
       geometry_coordinates = None\<rparr> ''id'' = Inr (JStr ''a'')
   \<and> getFeatureUniqueId
      \<lparr>feature_id = None, properties = Some [(''id'', JStr ''a'')],
       geometry_coordinates = None\<rparr> ''name'' = Inr JUndefined
   \<and> getFeatureUniqueId
      \<lparr>feature_id = Some (JNum 7), properties = Some [(''id'', JStr ''a'')],
       geometry_coordinates = None\<rparr> [] = Inr (JNum 7)
   \<and> getFeatureUniqueId
      \<lparr>feature_id = None, properties = Some [(''id'', JStr ''a'')],
       geometry_coordinates = None\<rparr> [] = Inr sentinel"
proof -
  let ?f = "\<lparr>feature_id = None, properties = Some [(''id'', JStr ''a'')],
             geometry_coordinates = None\<rparr>"
  let ?g = "\<lparr>feature_id = Some (JNum 7), properties = Some [(''id'', JStr ''a'')],
             geometry_coordinates = None\<rparr>"
  have 1: "getFeatureUniqueId ?f ''id'' = Inr (JStr ''a'')"
    using getFeatureUniqueId_cases [of "''id''" ?f "[(''id'', JStr ''a'')]" "JStr ''a''"]
    by simp
  have 2: "getFeatureUniqueId ?f ''name'' = Inr JUndefined"
    using getFeatureUniqueId_cases [of "''name''" ?f "[(''id'', JStr ''a'')]"]
    by simp
  have 3: "getFeatureUniqueId ?g [] = Inr (JNum 7)"
    using getFeatureUniqueId_cases [of "[]" ?g _ "JNum 7"]
    by simp
  have 4: "getFeatureUniqueId ?f [] = Inr sentinel"
    using getFeatureUniqueId_cases [of "[]" ?f]
    by simp
  from 1 2 3 4 show ?thesis by simp
qed

text \<open>
  C9, as the code has it. A feature without a property bag makes the resolver throw
  when a property name is configured.
\<close>

theorem getFeatureUniqueId_throws:
  "getFeatureUniqueId
     \<lparr>feature_id = Some (JNum 1), properties = None, geometry_coordinates = None\<rparr> ''id''
   = Inl TypeError"
  by (simp add: getFeatureUniqueId_def)

text \<open>
  C9, amended. The resolver returns a value whenever no property name is configured or
  the feature has a property bag; a missing entry and a missing id are not errors.
\<close>

theorem getFeatureUniqueId_returns:
  "p = [] \<or> properties f \<noteq> None \<Longrightarrow> \<exists>v. getFeatureUniqueId f p = Inr v"
  by (auto simp: getFeatureUniqueId_def split: option.splits)

theorem getFeatureUniqueId_returns_witness:
  "(\<exists>v. getFeatureUniqueId
      \<lparr>feature_id = None, properties = None, geometry_coordinates = None\<rparr> [] = Inr v)
   \<and> (\<exists>v. getFeatureUniqueId
      \<lparr>feature_id = None, properties = Some [], geometry_coordinates = None\<rparr> ''id'' = Inr v)"
proof -
  have a: "\<exists>v. getFeatureUniqueId
      \<lparr>feature_id = None, properties = None, geometry_coordinates = None\<rparr> [] = Inr v"
    using getFeatureUniqueId_returns
      [of "[]" "\<lparr>feature_id = None, properties = None, geometry_coordinates = None\<rparr>"]
    by simp
  have b: "\<exists>v. getFeatureUniqueId
      \<lparr>feature_id = None, properties = Some [], geometry_coordinates = None\<rparr> ''id'' = Inr v"
    using getFeatureUniqueId_returns
      [of "''id''" "\<lparr>feature_id = None, properties = Some [], geometry_coordinates = None\<rparr>"]
    by simp
  from a b show ?thesis by simp
qed

lemma getFeatureUniqueId_error: "getFeatureUniqueId f p = Inl e \<Longrightarrow> e = TypeError"
  by (auto simp: getFeatureUniqueId_def split: if_splits option.splits)

section \<open>Placement of a tile\<close>

text \<open>
  C6. For a tile with \<open>z \<ge> 0\<close> the scale is \<open>(W / 2^z, - W / 2^z, 1)\<close> and the origin
  \<open>(W x / 2^z, W (1 - y / 2^z), 0)\<close>, with \<open>W = 512\<close>. For the tile \<open>(1, 1, 1)\<close> they
  are \<open>(256, -256, 1)\<close> and \<open>(256, 256, 0)\<close>.
\<close>

theorem placement_formulas:
  "0 \<le> tile_z t \<Longrightarrow>
     WORLD_SIZE = 512
   \<and> getModelMatrixScale t
       = (WORLD_SIZE / 2 ^ nat (tile_z t), - (WORLD_SIZE / 2 ^ nat (tile_z t)), 1)
   \<and> getCoordinateOrigin t
       = (WORLD_SIZE * real_of_int (tile_x t) / 2 ^ nat (tile_z t),
          WORLD_SIZE * (1 - real_of_int (tile_y t) / 2 ^ nat (tile_z t)), 0)"
  by (simp add: getModelMatrixScale_def getCoordinateOrigin_def Let_def power_int_def WORLD_SIZE_def)

theorem placement_formulas_witness:
  "(0::int) \<le> 1
   \<and> getModelMatrixScale \<lparr>tile_x = 1, tile_y = 1, tile_z = 1, tile_data = None\<rparr>
       = (256, - 256, 1)
   \<and> getCoordinateOrigin \<lparr>tile_x = 1, tile_y = 1, tile_z = 1, tile_data = None\<rparr>
       = (256, 256, 0)"
  using placement_formulas [of "\<lparr>tile_x = 1, tile_y = 1, tile_z = 1, tile_data = None\<rparr>"]
  by (simp add: WORLD_SIZE_def)

section \<open>The frustum test\<close>

lemma dot_defined: "3 \<le> length v \<Longrightarrow> \<exists>d. dot n v = Inr d"
  by (cases "(n, v)" rule: dot.cases) auto

lemma coordIsInPlanes_inside:
  "3 \<le> length v \<Longrightarrow> coordIsInPlanes frustumPlanes v = Inr (inside_every_plane frustumPlanes v)"
proof (induction frustumPlanes)
  case Nil
  then show ?case by (simp add: inside_every_plane_def)
next
  case (Cons a frustumPlanes)
  obtain name pl where a: "a = (name, pl)" by (cases a)
  from Cons.prems obtain d where d: "dot (normal pl) v = Inr d"
    using dot_defined by blast
  with Cons a show ?case by (simp add: inside_every_plane_def)
qed

lemma transformedIsInPlanes_contained:
  "transformable matrix p \<Longrightarrow>
     transformedIsInPlanes matrix frustumPlanes p = Inr (position_contained matrix frustumPlanes p)"
  by (auto simp: transformable_def transformedIsInPlanes_def position_contained_def
        coordIsInPlanes_inside split: sum.splits)

lemma leaf_positions_position: "isPosition c \<Longrightarrow> leaf_positions c = [c]"
  by (cases c rule: isPosition.cases) auto

lemma check_some_inside:
  "well_formed matrix c \<Longrightarrow>
      checkIfCoordsAreInsideFrustum matrix frustumPlanes c
        = Inr (\<exists>p \<in> set (leaf_positions c). position_contained matrix frustumPlanes p)"
  "list_all (\<lambda>c. (isPosition c \<or> isNested c) \<and> well_formed matrix c) cs \<Longrightarrow>
      some_inside matrix frustumPlanes cs
        = Inr (\<exists>c \<in> set cs. \<exists>p \<in> set (leaf_positions c). position_contained matrix frustumPlanes p)"
proof (induction matrix frustumPlanes c and matrix frustumPlanes cs
    rule: checkIfCoordsAreInsideFrustum_some_inside.induct)
  case (1 matrix frustumPlanes x)
  then show ?case by simp
next
  case (2 matrix frustumPlanes cs)
  then show ?case
    by (auto simp: transformedIsInPlanes_contained simp del: isPosition.simps)
next
  case (3 matrix frustumPlanes)
  then show ?case by simp
next
  case (4 matrix frustumPlanes c cs)
  from 4(3) have wfc: "well_formed matrix c" and kind: "isPosition c \<or> isNested c"
    and wfcs: "list_all (\<lambda>c. (isPosition c \<or> isNested c) \<and> well_formed matrix c) cs"
    by simp_all
  let ?here = "\<exists>p \<in> set (leaf_positions c). position_contained matrix frustumPlanes p"
  have head: "(if isNested c then checkIfCoordsAreInsideFrustum matrix frustumPlanes c
          else transformedIsInPlanes matrix frustumPlanes c) = Inr ?here"
  proof (cases "isNested c")
    case True
    with 4(1) wfc show ?thesis by simp
  next
    case False
    with kind have pos: "isPosition c" by simp
    with wfc have "transformable matrix c"
      by (cases c rule: isPosition.cases) auto
    with pos False show ?thesis
      by (simp add: transformedIsInPlanes_contained leaf_positions_position)
  qed
  show ?case
  proof (cases ?here)
    case True
    with head show ?thesis by simp
  next
    case False
    with head have h: "(if isNested c then checkIfCoordsAreInsideFrustum matrix frustumPlanes c
          else transformedIsInPlanes matrix frustumPlanes c) = Inr False"
      by simp
    have "some_inside matrix frustumPlanes cs
        = Inr (\<exists>c \<in> set cs. \<exists>p \<in> set (leaf_positions c). position_contained matrix frustumPlanes p)"
      using 4(2) [OF h] wfcs by simp
    with h False show ?thesis by simp
  qed
qed

lemma leaf_positions_transformable:
  "well_formed matrix c \<Longrightarrow> p \<in> set (leaf_positions c) \<Longrightarrow> transformable matrix p"
proof (induction c rule: leaf_positions.induct)
  case (1 x)
  then show ?case by simp
next
  case (2 cs)
  show ?case
  proof (cases "isPosition (Arr cs)")
    case True
    with 2(2,3) show ?thesis by simp
  next
    case False
    with 2(3) obtain c where c: "c \<in> set cs" "p \<in> set (leaf_positions c)" by auto
    with 2(2) False have "well_formed matrix c" by (simp add: list_all_iff)
    with 2(1) False c show ?thesis by blast
  qed
qed

lemma below_distance_iff:
  "(case r of Inl e \<Rightarrow> False | Inr d \<Rightarrow> d < (x::real)) = (\<exists>d. r = Inr d \<and> d < x)"
  by (cases r) auto

lemma position_contained_iff:
  "position_contained matrix frustumPlanes p
     = (\<exists>v. matrix p = Inr v \<and>
          (\<forall>(name, pl) \<in> set frustumPlanes.
             \<exists>d. dot (normal pl) (v @ [0]) = Inr d \<and> d < distance pl))"
  by (cases "matrix p")
    (simp_all add: position_contained_def inside_every_plane_def list_all_iff
       below_distance_iff case_prod_unfold)

text \<open>
  C5. On well-formed coordinates the frustum test returns true exactly when some leaf
  position, transformed and extended by the component \<open>0\<close>, has a product with the normal
  strictly below the distance for every plane; otherwise it returns false.
\<close>

theorem checkIfCoordsAreInsideFrustum_some_leaf:
  "well_formed matrix c \<Longrightarrow>
     checkIfCoordsAreInsideFrustum matrix frustumPlanes c
       = Inr (\<exists>p \<in> set (leaf_positions c).
               \<exists>v. matrix p = Inr v \<and>
                 (\<forall>(name, pl) \<in> set frustumPlanes.
                    \<exists>d. dot (normal pl) (v @ [0]) = Inr d \<and> d < distance pl))"
  by (simp add: check_some_inside(1) position_contained_iff)

theorem checkIfCoordsAreInsideFrustum_some_leaf_witness:
  "well_formed (translateScale (0, 0, 0) (1, 1, 1)) (Arr [Num 0, Num 0])
   \<and> checkIfCoordsAreInsideFrustum (translateScale (0, 0, 0) (1, 1, 1))
        [(''right'', \<lparr>normal = (1, 0, 0), distance = 10\<rparr>)] (Arr [Num 0, Num 0]) = Inr True
   \<and> checkIfCoordsAreInsideFrustum (translateScale (0, 0, 0) (1, 1, 1))
        [(''right'', \<lparr>normal = (1, 0, 0), distance = - 1\<rparr>)] (Arr [Num 0, Num 0]) = Inr False
   \<and> well_formed (translateScale (0, 0, 0) (1, 1, 1))
        (Arr [Arr [Arr [Num 20, Num 0], Arr [Num 3, Num 4]]])
   \<and> checkIfCoordsAreInsideFrustum (translateScale (0, 0, 0) (1, 1, 1))
        [(''right'', \<lparr>normal = (1, 0, 0), distance = 10\<rparr>)]
        (Arr [Arr [Arr [Num 20, Num 0], Arr [Num 3, Num 4]]]) = Inr True"
proof -
  let ?I = "translateScale (0, 0, 0) (1, 1, 1)"
  let ?pt = "Arr [Num 0, Num 0]"
  let ?poly = "Arr [Arr [Arr [Num 20, Num 0], Arr [Num 3, Num 4]]]"
  have wf: "well_formed ?I ?pt" by (simp add: transformable_def)
  have wfp: "well_formed ?I ?poly" by (simp add: transformable_def)
  have a: "checkIfCoordsAreInsideFrustum ?I
        [(''right'', \<lparr>normal = (1, 0, 0), distance = 10\<rparr>)] ?pt = Inr True"
    using checkIfCoordsAreInsideFrustum_some_leaf [OF wf] by simp
  have b: "checkIfCoordsAreInsideFrustum ?I
        [(''right'', \<lparr>normal = (1, 0, 0), distance = - 1\<rparr>)] ?pt = Inr False"
    using checkIfCoordsAreInsideFrustum_some_leaf [OF wf] by simp
  have c: "checkIfCoordsAreInsideFrustum ?I
        [(''right'', \<lparr>normal = (1, 0, 0), distance = 10\<rparr>)] ?poly = Inr True"
    using checkIfCoordsAreInsideFrustum_some_leaf [OF wfp] by simp
  from wf wfp a b c show ?thesis by blast
qed

text \<open>
  C10. With no planes every point passes the plane test, so that well-formed coordinates
  with at least one leaf position are inside; the empty coordinates array is not inside,
  whatever the planes are.
\<close>

theorem empty_planes_empty_coordinates:
  "coordIsInPlanes [] v = Inr True
   \<and> (well_formed matrix c \<and> leaf_positions c \<noteq> []
        \<longrightarrow> checkIfCoordsAreInsideFrustum matrix [] c = Inr True)
   \<and> checkIfCoordsAreInsideFrustum matrix frustumPlanes (Arr []) = Inr False"
proof -
  have "checkIfCoordsAreInsideFrustum matrix [] c = Inr True"
    if wf: "well_formed matrix c" and ne: "leaf_positions c \<noteq> []"
  proof -
    from ne obtain p where p: "p \<in> set (leaf_positions c)"
      by (cases "leaf_positions c") auto
    with wf have "transformable matrix p" by (rule leaf_positions_transformable)
    then have "position_contained matrix [] p"
      by (auto simp: transformable_def position_contained_def inside_every_plane_def
            split: sum.splits)
    with p wf show ?thesis by (auto simp: check_some_inside(1))
  qed
  then show ?thesis by simp
qed

theorem empty_planes_empty_coordinates_witness:
  "well_formed (translateScale (0, 0, 0) (1, 1, 1)) (Arr [Arr [Num 20, Num 0], Arr [Num 3, Num 4]])
   \<and> leaf_positions (Arr [Arr [Num 20, Num 0], Arr [Num 3, Num 4]]) \<noteq> []
   \<and> checkIfCoordsAreInsideFrustum (translateScale (0, 0, 0) (1, 1, 1)) []
        (Arr [Arr [Num 20, Num 0], Arr [Num 3, Num 4]]) = Inr True"
proof -
  let ?I = "translateScale (0, 0, 0) (1, 1, 1)"
  let ?line = "Arr [Arr [Num 20, Num 0], Arr [Num 3, Num 4]]"
  have wf: "well_formed ?I ?line" by (simp add: transformable_def)
  have ne: "leaf_positions ?line \<noteq> []" by simp
  from empty_planes_empty_coordinates [of _ ?I ?line] wf ne
  have "checkIfCoordsAreInsideFrustum ?I [] ?line = Inr True" by blast
  with wf ne show ?thesis by blast
qed

subsection \<open>Tightening the planes\<close>

lemma coordIsInPlanes_tightened:
  "tightened tight frustumPlanes \<Longrightarrow> coordIsInPlanes tight v = Inr b \<Longrightarrow>
     \<exists>b'. coordIsInPlanes frustumPlanes v = Inr b' \<and> (b \<longrightarrow> b')"
  unfolding tightened_def
proof (induction tight frustumPlanes arbitrary: b rule: list_all2_induct)
  case Nil
  then show ?case by auto
next
  case (Cons x xs y ys)
  obtain name' pl' where x: "x = (name', pl')" by (cases x)
  obtain name pl where y: "y = (name, pl)" by (cases y)
  from Cons.hyps(1) x y have same: "normal pl' = normal pl" and le: "distance pl' \<le> distance pl"
    by simp_all
  from Cons.prems x obtain d where d: "dot (normal pl') v = Inr d"
    by (auto split: sum.splits)
  show ?case
  proof (cases "d < distance pl'")
    case True
    with Cons.prems x d have "coordIsInPlanes xs v = Inr b" by simp
    from Cons.IH [OF this] True le d same y show ?thesis by auto
  next
    case False
    with Cons.prems x d have nb: "\<not> b" by simp
    have "\<exists>b'. coordIsInPlanes ys v = Inr b'"
    proof -
      from d have len: "3 \<le> length v"
        by (cases "(normal pl', v)" rule: dot.cases) auto
      then show ?thesis by (simp add: coordIsInPlanes_inside)
    qed
    with nb d same y show ?thesis by auto
  qed
qed

lemma transformedIsInPlanes_tightened:
  "tightened tight frustumPlanes \<Longrightarrow> transformedIsInPlanes matrix tight p = Inr b \<Longrightarrow>
     \<exists>b'. transformedIsInPlanes matrix frustumPlanes p = Inr b' \<and> (b \<longrightarrow> b')"
  by (auto simp: transformedIsInPlanes_def split: sum.splits dest: coordIsInPlanes_tightened)

lemma check_tightened:
  "tightened tight frustumPlanes \<Longrightarrow> checkIfCoordsAreInsideFrustum matrix tight c = Inr b \<Longrightarrow>
     \<exists>b'. checkIfCoordsAreInsideFrustum matrix frustumPlanes c = Inr b' \<and> (b \<longrightarrow> b')"
  "tightened tight frustumPlanes \<Longrightarrow> some_inside matrix tight cs = Inr b \<Longrightarrow>
     \<exists>b'. some_inside matrix frustumPlanes cs = Inr b' \<and> (b \<longrightarrow> b')"
proof (induction matrix tight c and matrix tight cs arbitrary: b and b
    rule: checkIfCoordsAreInsideFrustum_some_inside.induct)
  case (1 matrix tight x)
  then show ?case by simp
next
  case (2 matrix tight cs)
  then show ?case
    by (auto simp del: isPosition.simps dest: transformedIsInPlanes_tightened)
next
  case (3 matrix tight)
  then show ?case by auto
next
  case (4 matrix tight c cs)
  let ?head = "\<lambda>pls. if isNested c then checkIfCoordsAreInsideFrustum matrix pls c
            else transformedIsInPlanes matrix pls c"
  from 4(4) obtain h where h: "?head tight = Inr h"
    by (auto split: sum.splits)
  have "\<exists>h'. ?head frustumPlanes = Inr h' \<and> (h \<longrightarrow> h')"
  proof (cases "isNested c")
    case True
    with h 4(1) [OF _ 4(3)] show ?thesis by simp
  next
    case False
    with h transformedIsInPlanes_tightened [OF 4(3)] show ?thesis by simp
  qed
  then obtain h' where h': "?head frustumPlanes = Inr h'" "h \<longrightarrow> h'" by blast
  show ?case
  proof (cases h')
    case True
    with h' show ?thesis by auto
  next
    case False
    with h' have nh: "\<not> h" by simp
    with h 4(4) have "some_inside matrix tight cs = Inr b" by simp
    from 4(2) [OF h nh 4(3) this] h' False show ?thesis by simp
  qed
qed

text \<open>
  C7. When every distance of the plane set is decreased and the normals are kept, a leaf
  position contained under the tightened planes is contained under the original ones, and
  so is a geometry which the frustum test accepts under the tightened planes.
\<close>

theorem frustum_containment_monotone:
  "tightened tight frustumPlanes \<Longrightarrow>
     (\<forall>p \<in> set (leaf_positions c).
        transformedIsInPlanes matrix tight p = Inr True
          \<longrightarrow> transformedIsInPlanes matrix frustumPlanes p = Inr True)
     \<and> (checkIfCoordsAreInsideFrustum matrix tight c = Inr True
          \<longrightarrow> checkIfCoordsAreInsideFrustum matrix frustumPlanes c = Inr True)"
proof -
  assume t: "tightened tight frustumPlanes"
  have leaf: "transformedIsInPlanes matrix frustumPlanes p = Inr True"
    if "transformedIsInPlanes matrix tight p = Inr True" for p
    using transformedIsInPlanes_tightened [OF t that] by auto
  have whole: "checkIfCoordsAreInsideFrustum matrix frustumPlanes c = Inr True"
    if "checkIfCoordsAreInsideFrustum matrix tight c = Inr True"
    using check_tightened(1) [OF t that] by auto
  from leaf whole show ?thesis by blast
qed

theorem frustum_containment_monotone_witness:
  "tightened [(''right'', \<lparr>normal = (1, 0, 0), distance = 5\<rparr>)]
             [(''right'', \<lparr>normal = (1, 0, 0), distance = 10\<rparr>)]
   \<and> Arr [Num 3, Num 4] \<in> set (leaf_positions (Arr [Arr [Num 20, Num 0], Arr [Num 3, Num 4]]))
   \<and> transformedIsInPlanes (translateScale (0, 0, 0) (1, 1, 1))
        [(''right'', \<lparr>normal = (1, 0, 0), distance = 5\<rparr>)] (Arr [Num 3, Num 4]) = Inr True
   \<and> transformedIsInPlanes (translateScale (0, 0, 0) (1, 1, 1))
        [(''right'', \<lparr>normal = (1, 0, 0), distance = 10\<rparr>)] (Arr [Num 3, Num 4]) = Inr True
   \<and> checkIfCoordsAreInsideFrustum (translateScale (0, 0, 0) (1, 1, 1))
        [(''right'', \<lparr>normal = (1, 0, 0), distance = 5\<rparr>)]
        (Arr [Arr [Num 20, Num 0], Arr [Num 3, Num 4]]) = Inr True
   \<and> checkIfCoordsAreInsideFrustum (translateScale (0, 0, 0) (1, 1, 1))
        [(''right'', \<lparr>normal = (1, 0, 0), distance = 10\<rparr>)]
        (Arr [Arr [Num 20, Num 0], Arr [Num 3, Num 4]]) = Inr True"
proof -
  let ?I = "translateScale (0, 0, 0) (1, 1, 1)"
  let ?tight = "[(''right'', \<lparr>normal = (1, 0, 0), distance = 5\<rparr>)]"
  let ?planes = "[(''right'', \<lparr>normal = (1, 0, 0), distance = 10\<rparr>)]"
  let ?line = "Arr [Arr [Num 20, Num 0], Arr [Num 3, Num 4]]"
  have t: "tightened ?tight ?planes" by (simp add: tightened_def)
  have m: "Arr [Num 3, Num 4] \<in> set (leaf_positions ?line)" by simp
  have p: "transformedIsInPlanes ?I ?tight (Arr [Num 3, Num 4]) = Inr True"
    by (simp add: transformedIsInPlanes_def)
  have q: "checkIfCoordsAreInsideFrustum ?I ?tight ?line = Inr True"
    by (simp add: transformedIsInPlanes_def)
  note mono = frustum_containment_monotone [OF t, of ?line ?I]
  from mono m p have p': "transformedIsInPlanes ?I ?planes (Arr [Num 3, Num 4]) = Inr True"
    by blast
  from mono q have q': "checkIfCoordsAreInsideFrustum ?I ?planes ?line = Inr True"
    by blast
  from t m p q p' q' show ?thesis by blast
qed

section \<open>Deduplication\<close>

lemma first_occurrences_snoc:
  "first_occurrences p (pre @ [f]) =
     first_occurrences p pre @
       (if getFeatureUniqueId f p = Inr sentinel
           \<or> getFeatureUniqueId f p \<notin> set (identities p pre) then [f] else [])"
proof -
  have "filter (\<lambda>(i, g). getFeatureUniqueId g p = Inr sentinel
            \<or> getFeatureUniqueId g p \<notin> set (identities p (take i (pre @ [f]))))
          (enumerate 0 pre)
      = filter (\<lambda>(i, g). getFeatureUniqueId g p = Inr sentinel
            \<or> getFeatureUniqueId g p \<notin> set (identities p (take i pre)))
          (enumerate 0 pre)"
    by (rule filter_cong) (auto simp: in_set_enumerate_eq)
  then show ?thesis
    by (simp add: first_occurrences_def enumerate_append_eq)
qed

lemma renderedFeaturesLoop_first_occurrences:
  "list_all (resolves p) pre \<Longrightarrow>
   featureCache = {v. v \<noteq> sentinel \<and> Inr v \<in> set (identities p pre)} \<Longrightarrow>
   renderedFeaturesLoop p hits (featureCache, first_occurrences p pre)
     = (if list_all (\<lambda>h. resolves p (object h)) hits
        then Inr (first_occurrences p (pre @ map object hits))
        else Inl TypeError)"
proof (induction hits arbitrary: pre featureCache)
  case Nil
  then show ?case by simp
next
  case (Cons h hits)
  show ?case
  proof (cases "getFeatureUniqueId (object h) p")
    case (Inl e)
    then have "e = TypeError" by (rule getFeatureUniqueId_error)
    with Inl show ?thesis by (simp add: resolves_def)
  next
    case (Inr v)
    let ?pre = "pre @ [object h]"
    have res: "resolves p (object h)" using Inr by (simp add: resolves_def)
    have all: "list_all (resolves p) ?pre"
      using Cons.prems(1) res by simp
    have ids: "set (identities p ?pre) = insert (Inr v) (set (identities p pre))"
      using Inr by (simp add: identities_def)
    show ?thesis
    proof (cases "v = sentinel")
      case True
      have c: "featureCache = {v. v \<noteq> sentinel \<and> Inr v \<in> set (identities p ?pre)}"
        using Cons.prems(2) ids True by auto
      have acc: "first_occurrences p pre @ [object h] = first_occurrences p ?pre"
        using Inr True by (simp add: first_occurrences_snoc)
      from Cons.IH [OF all c] Inr True acc res show ?thesis by simp
    next
      case False
      show ?thesis
      proof (cases "v \<in> featureCache")
        case True
        have c: "featureCache = {v. v \<noteq> sentinel \<and> Inr v \<in> set (identities p ?pre)}"
          using Cons.prems(2) ids True by auto
        have acc: "first_occurrences p pre = first_occurrences p ?pre"
          using Inr True False Cons.prems(2) by (simp add: first_occurrences_snoc)
        from Cons.IH [OF all c] Inr True False acc res show ?thesis by simp
      next
        case notin: False
        have c: "insert v featureCache
            = {v. v \<noteq> sentinel \<and> Inr v \<in> set (identities p ?pre)}"
          using Cons.prems(2) ids False by auto
        have acc: "first_occurrences p pre @ [object h] = first_occurrences p ?pre"
          using Inr notin False Cons.prems(2) by (simp add: first_occurrences_snoc)
        from Cons.IH [OF all c] Inr notin False acc res show ?thesis by simp
      qed
    qed
  qed
qed

text \<open>
  C4. The collector of rendered features returns, in the order of the hit-test results,
  every feature whose identity is the sentinel \<open>-1\<close> and, of the features with another
  identity, the first one of each identity. When the identity of some hit does not
  resolve, the call throws the TypeError of the resolver.
\<close>

theorem getRenderedFeatures_first_occurrences:
  "getRenderedFeatures pickObjects uniqueIdProperty maxFeatures =
     (if list_all (\<lambda>h. resolves uniqueIdProperty (object h)) (pickObjects maxFeatures)
      then Inr (first_occurrences uniqueIdProperty (map object (pickObjects maxFeatures)))
      else Inl TypeError)"
  using renderedFeaturesLoop_first_occurrences
    [of uniqueIdProperty "[]" "{}" "pickObjects maxFeatures"]
  by (simp add: getRenderedFeatures_def first_occurrences_def identities_def)

theorem getRenderedFeatures_first_occurrences_witness:
  "getRenderedFeatures
     (\<lambda>maxFeatures.
        [\<lparr>object = \<lparr>feature_id = Some (JNum 1), properties = Some [(''name'', JStr ''a'')],
                     geometry_coordinates = None\<rparr>\<rparr>,
         \<lparr>object = \<lparr>feature_id = Some (JNum 1), properties = Some [(''name'', JStr ''b'')],
                     geometry_coordinates = None\<rparr>\<rparr>,
         \<lparr>object = \<lparr>feature_id = None, properties = Some [(''name'', JStr ''c'')],
                     geometry_coordinates = None\<rparr>\<rparr>,
         \<lparr>object = \<lparr>feature_id = None, properties = Some [(''name'', JStr ''d'')],
                     geometry_coordinates = None\<rparr>\<rparr>])
     [] None
   = Inr [\<lparr>feature_id = Some (JNum 1), properties = Some [(''name'', JStr ''a'')],
            geometry_coordinates = None\<rparr>,
          \<lparr>feature_id = None, properties = Some [(''name'', JStr ''c'')],
            geometry_coordinates = None\<rparr>,
          \<lparr>feature_id = None, properties = Some [(''name'', JStr ''d'')],
            geometry_coordinates = None\<rparr>]"
  using getRenderedFeatures_first_occurrences
    [of "\<lambda>maxFeatures.
        [\<lparr>object = \<lparr>feature_id = Some (JNum 1), properties = Some [(''name'', JStr ''a'')],
                     geometry_coordinates = None\<rparr>\<rparr>,
         \<lparr>object = \<lparr>feature_id = Some (JNum 1), properties = Some [(''name'', JStr ''b'')],
                     geometry_coordinates = None\<rparr>\<rparr>,
         \<lparr>object = \<lparr>feature_id = None, properties = Some [(''name'', JStr ''c'')],
                     geometry_coordinates = None\<rparr>\<rparr>,
         \<lparr>object = \<lparr>feature_id = None, properties = Some [(''name'', JStr ''d'')],
                     geometry_coordinates = None\<rparr>\<rparr>]" "[]" None]
  by (simp add: first_occurrences_def identities_def resolves_def getFeatureUniqueId_def
        enumerate_eq_zip upt_rec)

lemma distinct_filter_nth:
  "distinct (filter P xs) \<Longrightarrow> i < length xs \<Longrightarrow> j < length xs \<Longrightarrow> i \<noteq> j \<Longrightarrow>
     xs ! i = xs ! j \<Longrightarrow> \<not> P (xs ! i)"
proof (induction xs arbitrary: i j)
  case Nil
  then show ?case by simp
next
  case (Cons x xs)
  show ?case
  proof (cases i)
    case 0
    with Cons.prems obtain j' where j: "j = Suc j'" "j' < length xs"
      by (cases j) auto
    with 0 Cons.prems have "x = xs ! j'" by simp
    with j have "x \<in> set xs" by simp
    with Cons.prems(1) 0 show ?thesis by auto
  next
    case (Suc i')
    show ?thesis
    proof (cases j)
      case 0
      with Suc Cons.prems have "x = xs ! i'" "i' < length xs" by simp_all
      then have "x \<in> set xs" by simp
      with Cons.prems(1) 0 Suc \<open>x = xs ! i'\<close> show ?thesis by auto
    next
      case (Suc j')
      with \<open>i = Suc i'\<close> Cons.prems have "i' < length xs" "j' < length xs" "i' \<noteq> j'"
        "xs ! i' = xs ! j'" by simp_all
      moreover from Cons.prems(1) have "distinct (filter P xs)" by (simp split: if_splits)
      ultimately have "\<not> P (xs ! i')" by (rule Cons.IH [rotated])
      with \<open>i = Suc i'\<close> show ?thesis by simp
    qed
  qed
qed

lemma no_shared_identityI:
  "distinct (filter (\<lambda>r. r \<noteq> Inr sentinel) (identities p res)) \<Longrightarrow> no_shared_identity p res"
  unfolding no_shared_identity_def
proof (intro allI impI, elim conjE)
  fix i j
  assume d: "distinct (filter (\<lambda>r. r \<noteq> Inr sentinel) (identities p res))"
    and i: "i < length res" and j: "j < length res" and ne: "i \<noteq> j"
    and eq: "getFeatureUniqueId (res ! i) p = getFeatureUniqueId (res ! j) p"
  have "\<not> (identities p res ! i \<noteq> Inr sentinel)"
    using d
  proof (rule distinct_filter_nth)
    show "i < length (identities p res)" using i by (simp add: identities_def)
    show "j < length (identities p res)" using j by (simp add: identities_def)
    show "i \<noteq> j" by (rule ne)
    show "identities p res ! i = identities p res ! j"
      using i j eq by (simp add: identities_def)
  qed
  with i show "getFeatureUniqueId (res ! i) p = Inr sentinel"
    by (simp add: identities_def)
qed

lemma renderedFeaturesLoop_distinct:
  "renderedFeaturesLoop p hits (featureCache, acc) = Inr res \<Longrightarrow>
   distinct (filter (\<lambda>r. r \<noteq> Inr sentinel) (identities p acc)) \<Longrightarrow>
   (\<forall>r \<in> set (identities p acc). r \<noteq> Inr sentinel \<longrightarrow> r \<in> Inr ` featureCache) \<Longrightarrow>
   distinct (filter (\<lambda>r. r \<noteq> Inr sentinel) (identities p res))"
proof (induction hits arbitrary: featureCache acc)
  case Nil
  then show ?case by simp
next
  case (Cons h hits)
  from Cons.prems(1) obtain v where v: "getFeatureUniqueId (object h) p = Inr v"
    by (cases "getFeatureUniqueId (object h) p") auto
  have ids: "identities p (acc @ [object h]) = identities p acc @ [Inr v]"
    using v by (simp add: identities_def)
  show ?case
  proof (cases "v = sentinel")
    case True
    with Cons.prems v have
      "renderedFeaturesLoop p hits (featureCache, acc @ [object h]) = Inr res" by simp
    moreover have "distinct (filter (\<lambda>r. r \<noteq> Inr sentinel) (identities p (acc @ [object h])))"
      using Cons.prems(2) ids True by simp
    moreover have "\<forall>r \<in> set (identities p (acc @ [object h])).
        r \<noteq> Inr sentinel \<longrightarrow> r \<in> Inr ` featureCache"
      using Cons.prems(3) ids True by simp
    ultimately show ?thesis by (rule Cons.IH)
  next
    case False
    show ?thesis
    proof (cases "v \<in> featureCache")
      case True
      with Cons.prems v False have
        "renderedFeaturesLoop p hits (featureCache, acc) = Inr res" by simp
      then show ?thesis using Cons.prems(2,3) by (rule Cons.IH)
    next
      case notin: False
      with Cons.prems v False have
        "renderedFeaturesLoop p hits (insert v featureCache, acc @ [object h]) = Inr res"
        by simp
      moreover have "distinct (filter (\<lambda>r. r \<noteq> Inr sentinel) (identities p (acc @ [object h])))"
        using Cons.prems(2,3) ids False notin by auto
      moreover have "\<forall>r \<in> set (identities p (acc @ [object h])).
          r \<noteq> Inr sentinel \<longrightarrow> r \<in> Inr ` insert v featureCache"
        using Cons.prems(3) ids by auto
      ultimately show ?thesis by (rule Cons.IH)
    qed
  qed
qed

lemma filterTileData_distinct:
  "filterTileData m planes p fs featureCache = Inr (kept, cache) \<Longrightarrow>
   distinct (identities p kept)
   \<and> set (identities p kept) \<inter> Inr ` featureCache = {}
   \<and> Inr ` cache = Inr ` featureCache \<union> set (identities p kept)"
proof (induction fs arbitrary: featureCache kept cache)
  case Nil
  then show ?case by (simp add: identities_def)
next
  case (Cons f fs)
  from Cons.prems obtain v where v: "getFeatureUniqueId f p = Inr v"
    by (cases "getFeatureUniqueId f p") auto
  let ?test = "if v \<notin> featureCache then
                   (case geometry_coordinates f of
                      None \<Rightarrow> Inl TypeError
                    | Some coords \<Rightarrow> checkIfCoordsAreInsideFrustum m planes coords)
                 else Inr False"
  from Cons.prems v obtain keep where keep: "?test = Inr keep"
    by (cases ?test) auto
  show ?case
  proof (cases keep)
    case True
    with keep have notin: "v \<notin> featureCache" by (auto split: if_splits)
    from Cons.prems v keep True obtain kept' where
      rec: "filterTileData m planes p fs (insert v featureCache) = Inr (kept', cache)"
      and kept: "kept = f # kept'"
      by (auto split: sum.splits)
    from Cons.IH [OF rec] have
      d: "distinct (identities p kept')"
      and i: "set (identities p kept') \<inter> Inr ` insert v featureCache = {}"
      and c: "Inr ` cache = Inr ` insert v featureCache \<union> set (identities p kept')"
      by simp_all
    have ids: "identities p kept = Inr v # identities p kept'"
      using kept v by (simp add: identities_def)
    from d i c notin ids show ?thesis by auto
  next
    case False
    with Cons.prems v keep have "filterTileData m planes p fs featureCache = Inr (kept, cache)"
      by simp
    then show ?thesis by (rule Cons.IH)
  qed
qed

lemma selectedTilesLoop_distinct:
  "selectedTilesLoop M planes p ts (featureCache, acc) = Inr res \<Longrightarrow>
   distinct (identities p acc) \<Longrightarrow> set (identities p acc) \<subseteq> Inr ` featureCache \<Longrightarrow>
   distinct (identities p res)"
proof (induction ts arbitrary: featureCache acc)
  case Nil
  then show ?case by simp
next
  case (Cons t ts)
  show ?case
  proof (cases "tile_data t")
    case None
    with Cons.prems(1) have "selectedTilesLoop M planes p ts (featureCache, acc) = Inr res"
      by simp
    then show ?thesis using Cons.prems(2,3) by (rule Cons.IH)
  next
    case (Some data)
    let ?m = "M (getCoordinateOrigin t) (getModelMatrixScale t)"
    from Cons.prems(1) Some obtain kept cache where
      f: "filterTileData ?m planes p data featureCache = Inr (kept, cache)"
      and rec: "selectedTilesLoop M planes p ts (cache, acc @ kept) = Inr res"
      by (auto split: sum.splits)
    from filterTileData_distinct [OF f] have
      d: "distinct (identities p kept)"
      and i: "set (identities p kept) \<inter> Inr ` featureCache = {}"
      and c: "Inr ` cache = Inr ` featureCache \<union> set (identities p kept)"
      by simp_all
    have app: "identities p (acc @ kept) = identities p acc @ identities p kept"
      by (simp add: identities_def)
    have "distinct (identities p (acc @ kept))"
      using Cons.prems(2,3) d i app by auto
    moreover have "set (identities p (acc @ kept)) \<subseteq> Inr ` cache"
      using Cons.prems(3) c app by auto
    ultimately show ?thesis using rec Cons.IH by blast
  qed
qed

text \<open>
  C2. No two elements of the list returned by the viewport aggregator, and no two elements
  of the list returned by the collector of rendered features, share an identity other than
  the sentinel \<open>-1\<close>.
\<close>

theorem results_share_no_defined_identity:
  "(getViewportFeatures translateThenScale currentFrustumPlanes uniqueIdProperty selectedTiles
      = Inr res \<longrightarrow> no_shared_identity uniqueIdProperty res)
   \<and> (getRenderedFeatures pickObjects uniqueIdProperty maxFeatures = Inr res'
      \<longrightarrow> no_shared_identity uniqueIdProperty res')"
proof (intro conjI impI)
  assume "getViewportFeatures translateThenScale currentFrustumPlanes uniqueIdProperty
      selectedTiles = Inr res"
  then have "distinct (identities uniqueIdProperty res)"
    unfolding getViewportFeatures_def
    by (rule selectedTilesLoop_distinct) (simp_all add: identities_def)
  then have "distinct (filter (\<lambda>r. r \<noteq> Inr sentinel) (identities uniqueIdProperty res))"
    by (rule distinct_filter)
  then show "no_shared_identity uniqueIdProperty res" by (rule no_shared_identityI)
next
  assume "getRenderedFeatures pickObjects uniqueIdProperty maxFeatures = Inr res'"
  then have "distinct (filter (\<lambda>r. r \<noteq> Inr sentinel) (identities uniqueIdProperty res'))"
    unfolding getRenderedFeatures_def
    by (rule renderedFeaturesLoop_distinct) (simp_all add: identities_def)
  then show "no_shared_identity uniqueIdProperty res'" by (rule no_shared_identityI)
qed

theorem results_share_no_defined_identity_witness:
  "getViewportFeatures translateScale
      [(''right'', \<lparr>normal = (1, 0, 0), distance = 1000\<rparr>)] ''id''
      [\<lparr>tile_x = 0, tile_y = 0, tile_z = 1, tile_data =
          Some [\<lparr>feature_id = None, properties = Some [(''id'', JStr ''river-7'')],
                 geometry_coordinates = Some (Arr [Arr [Num 0, Num 0], Arr [Num 1, Num 0]])\<rparr>]\<rparr>,
       \<lparr>tile_x = 1, tile_y = 0, tile_z = 1, tile_data =
          Some [\<lparr>feature_id = None, properties = Some [(''id'', JStr ''river-7'')],
                 geometry_coordinates = Some (Arr [Arr [Num 0, Num 0], Arr [Num 1, Num 1]])\<rparr>]\<rparr>]
    = Inr [\<lparr>feature_id = None, properties = Some [(''id'', JStr ''river-7'')],
             geometry_coordinates = Some (Arr [Arr [Num 0, Num 0], Arr [Num 1, Num 0]])\<rparr>]
   \<and> no_shared_identity ''id''
        [\<lparr>feature_id = None, properties = Some [(''id'', JStr ''river-7'')],
          geometry_coordinates = Some (Arr [Arr [Num 0, Num 0], Arr [Num 1, Num 0]])\<rparr>]
   \<and> getRenderedFeatures
        (\<lambda>maxFeatures.
          [\<lparr>object = \<lparr>feature_id = None, properties = Some [(''id'', JStr ''river-7'')],
                       geometry_coordinates = None\<rparr>\<rparr>,
           \<lparr>object = \<lparr>feature_id = None, properties = Some [(''id'', JStr ''river-7'')],
                       geometry_coordinates = None\<rparr>\<rparr>]) ''id'' None
    = Inr [\<lparr>feature_id = None, properties = Some [(''id'', JStr ''river-7'')],
             geometry_coordinates = None\<rparr>]
   \<and> no_shared_identity ''id''
        [\<lparr>feature_id = None, properties = Some [(''id'', JStr ''river-7'')],
          geometry_coordinates = None\<rparr>]"
proof -
  let ?planes = "[(''right'', \<lparr>normal = (1, 0, 0), distance = 1000\<rparr>)]"
  let ?west = "\<lparr>feature_id = None, properties = Some [(''id'', JStr ''river-7'')],
      geometry_coordinates = Some (Arr [Arr [Num 0, Num 0], Arr [Num 1, Num 0]])\<rparr>"
  let ?east = "\<lparr>feature_id = None, properties = Some [(''id'', JStr ''river-7'')],
      geometry_coordinates = Some (Arr [Arr [Num 0, Num 0], Arr [Num 1, Num 1]])\<rparr>"
  let ?tiles = "[\<lparr>tile_x = 0, tile_y = 0, tile_z = 1, tile_data = Some [?west]\<rparr>,
                 \<lparr>tile_x = 1, tile_y = 0, tile_z = 1, tile_data = Some [?east]\<rparr>]"
  let ?hit = "\<lparr>feature_id = None, properties = Some [(''id'', JStr ''river-7'')],
      geometry_coordinates = None\<rparr>"
  let ?pick = "\<lambda>maxFeatures :: nat option. [\<lparr>object = ?hit\<rparr>, \<lparr>object = ?hit\<rparr>]"
  have v: "getViewportFeatures translateScale ?planes ''id'' ?tiles = Inr [?west]"
    by (simp add: getViewportFeatures_def getFeatureUniqueId_def getCoordinateOrigin_def
          getModelMatrixScale_def WORLD_SIZE_def transformedIsInPlanes_def Let_def)
  have r: "getRenderedFeatures ?pick ''id'' None = Inr [?hit]"
    by (simp add: getRenderedFeatures_def getFeatureUniqueId_def)
  from results_share_no_defined_identity
    [of translateScale ?planes "''id''" ?tiles "[?west]" ?pick None "[?hit]"] v r
  have "no_shared_identity ''id'' [?west]" and "no_shared_identity ''id'' [?hit]"
    by blast+
  with v r show ?thesis by blast
qed

text \<open>
  C1, as the code has it. Two features without an identity lie in one selected tile, both
  inside the frustum. The viewport aggregator puts the sentinel into its cache like any
  other identity and returns the first feature only, while the collector of rendered
  features returns both.
\<close>

theorem getViewportFeatures_drops_unidentified:
  "getFeatureUniqueId
      \<lparr>feature_id = None, properties = Some [(''name'', JStr ''a'')],
       geometry_coordinates = Some (Arr [Num 0, Num 0])\<rparr> [] = Inr sentinel
   \<and> getFeatureUniqueId
      \<lparr>feature_id = None, properties = Some [(''name'', JStr ''b'')],
       geometry_coordinates = Some (Arr [Num 1, Num 1])\<rparr> [] = Inr sentinel
   \<and> checkIfCoordsAreInsideFrustum (translateScale (0, 512, 0) (512, - 512, 1))
        [(''right'', \<lparr>normal = (1, 0, 0), distance = 1000\<rparr>)] (Arr [Num 0, Num 0]) = Inr True
   \<and> checkIfCoordsAreInsideFrustum (translateScale (0, 512, 0) (512, - 512, 1))
        [(''right'', \<lparr>normal = (1, 0, 0), distance = 1000\<rparr>)] (Arr [Num 1, Num 1]) = Inr True
   \<and> getViewportFeatures translateScale
        [(''right'', \<lparr>normal = (1, 0, 0), distance = 1000\<rparr>)] []
        [\<lparr>tile_x = 0, tile_y = 0, tile_z = 0, tile_data =
           Some [\<lparr>feature_id = None, properties = Some [(''name'', JStr ''a'')],
                  geometry_coordinates = Some (Arr [Num 0, Num 0])\<rparr>,
                 \<lparr>feature_id = None, properties = Some [(''name'', JStr ''b'')],
                  geometry_coordinates = Some (Arr [Num 1, Num 1])\<rparr>]\<rparr>]
      = Inr [\<lparr>feature_id = None, properties = Some [(''name'', JStr ''a'')],
               geometry_coordinates = Some (Arr [Num 0, Num 0])\<rparr>]
   \<and> getRenderedFeatures
        (\<lambda>maxFeatures.
           [\<lparr>object = \<lparr>feature_id = None, properties = Some [(''name'', JStr ''a'')],
                        geometry_coordinates = Some (Arr [Num 0, Num 0])\<rparr>\<rparr>,
            \<lparr>object = \<lparr>feature_id = None, properties = Some [(''name'', JStr ''b'')],
                        geometry_coordinates = Some (Arr [Num 1, Num 1])\<rparr>\<rparr>]) [] None
      = Inr [\<lparr>feature_id = None, properties = Some [(''name'', JStr ''a'')],
               geometry_coordinates = Some (Arr [Num 0, Num 0])\<rparr>,
             \<lparr>feature_id = None, properties = Some [(''name'', JStr ''b'')],
               geometry_coordinates = Some (Arr [Num 1, Num 1])\<rparr>]"
  by (simp add: getViewportFeatures_def getRenderedFeatures_def getFeatureUniqueId_def
        getCoordinateOrigin_def getModelMatrixScale_def WORLD_SIZE_def
        transformedIsInPlanes_def Let_def)

section \<open>Zoom bounds from a TileJSON document\<close>

lemma updateTileData_zoom:
  assumes "updateTileData isURLTemplate load props st = (None, st')"
    and "state_tileJSON st' = Some doc"
  shows "state_minZoom st' =
           (case minzoom doc of
              None \<Rightarrow> props_minZoom props
            | Some d \<Rightarrow> if greater_than d (props_minZoom props) then Some d
                        else props_minZoom props)"
    and "state_maxZoom st' =
           (case maxzoom doc of
              None \<Rightarrow> props_maxZoom props
            | Some d \<Rightarrow> (case props_maxZoom props of
                           None \<Rightarrow> Some d
                         | Some c \<Rightarrow> if d < c then Some d else Some c))"
  using assms
  by (auto simp: updateTileData_def Let_def split: option.splits sum.splits if_splits
        tile_source.splits)

text \<open>
  C8. When the update ends with a TileJSON document in the state, the zoom bounds of the
  state are those of the props, tightened by the document: the lower bound is the larger
  of the caller's and the document's, the upper bound the smaller of the two, and a bound
  which the document does not declare is the caller's. No bound is wider than the caller's.
\<close>

theorem updateTileData_tightens:
  "updateTileData isURLTemplate load props st = (None, st') \<Longrightarrow>
   state_tileJSON st' = Some doc \<Longrightarrow>
     (\<forall>c d. props_minZoom props = Some c \<and> minzoom doc = Some d
        \<longrightarrow> state_minZoom st' = Some (max c d))
   \<and> (\<forall>c d. props_maxZoom props = Some c \<and> maxzoom doc = Some d
        \<longrightarrow> state_maxZoom st' = Some (min c d))
   \<and> (props_maxZoom props = None \<longrightarrow> state_maxZoom st' = maxzoom doc)
   \<and> (minzoom doc = None \<longrightarrow> state_minZoom st' = props_minZoom props)
   \<and> (maxzoom doc = None \<longrightarrow> state_maxZoom st' = props_maxZoom props)
   \<and> (\<forall>c. props_minZoom props = Some c \<longrightarrow> (\<exists>m. state_minZoom st' = Some m \<and> c \<le> m))
   \<and> (\<forall>c. props_maxZoom props = Some c \<longrightarrow> (\<exists>m. state_maxZoom st' = Some m \<and> m \<le> c))"
proof -
  assume u: "updateTileData isURLTemplate load props st = (None, st')"
    and t: "state_tileJSON st' = Some doc"
  note z = updateTileData_zoom [OF u t]
  show ?thesis
    unfolding z
    by (auto simp: greater_than_def max_def min_def split: option.splits)
qed

theorem updateTileData_tightens_witness:
  "updateTileData (\<lambda>url. False)
      (\<lambda>url. Inr (Some \<lparr>tilejson = Some ''2.2.0'', tiles = Some [''t/{z}/{x}/{y}.mvt''],
                           minzoom = Some 2, maxzoom = Some 14\<rparr>))
      \<lparr>props_data = Some (SourceString ''tiles.json''), props_minZoom = Some 0,
       props_maxZoom = Some 20\<rparr>
      \<lparr>state_data = None, state_tileJSON = None, state_minZoom = None, state_maxZoom = None\<rparr>
    = (None,
       \<lparr>state_data = Some (SourceTemplates [''t/{z}/{x}/{y}.mvt'']),
        state_tileJSON = Some \<lparr>tilejson = Some ''2.2.0'', tiles = Some [''t/{z}/{x}/{y}.mvt''],
                                minzoom = Some 2, maxzoom = Some 14\<rparr>,
        state_minZoom = Some 2, state_maxZoom = Some 14\<rparr>)
   \<and> Some (2::real) = Some (max 0 2) \<and> Some (14::real) = Some (min 20 14)"
proof -
  let ?doc = "\<lparr>tilejson = Some ''2.2.0'', tiles = Some [''t/{z}/{x}/{y}.mvt''],
               minzoom = Some 2, maxzoom = Some 14\<rparr>"
  let ?props = "\<lparr>props_data = Some (SourceString ''tiles.json''), props_minZoom = Some 0,
                 props_maxZoom = Some 20\<rparr>"
  let ?st = "\<lparr>state_data = None, state_tileJSON = None, state_minZoom = None,
              state_maxZoom = None\<rparr>"
  let ?st' = "\<lparr>state_data = Some (SourceTemplates [''t/{z}/{x}/{y}.mvt'']),
               state_tileJSON = Some ?doc, state_minZoom = Some 2, state_maxZoom = Some 14\<rparr>"
  have u: "updateTileData (\<lambda>url. False) (\<lambda>url. Inr (Some ?doc)) ?props ?st = (None, ?st')"
    by (simp add: updateTileData_def fetchTileJSON_def greater_than_def)
  have t: "state_tileJSON ?st' = Some ?doc" by simp
  from updateTileData_tightens [OF u t]
  have "state_minZoom ?st' = Some (max 0 2)" and "state_maxZoom ?st' = Some (min 20 14)"
    by simp_all
  with u show ?thesis by simp
qed

end
